theory Spec2Isabelle
  imports Main
begin

section \<open>JavaScript values and operators the component relies on\<close>

text \<open>
  A value of TypeScript type \<open>T | undefined\<close> (an optional property, a missing array
  element, the result of an optional chain) is a \<open>'a option\<close>, with \<open>None\<close> for
  \<open>undefined\<close>. An exception is a value of \<open>js_error\<close>: the \<open>TypeError\<close> of a
  property read on \<open>undefined\<close>, the only one this file raises by itself, and an
  \<open>Error\<close> with its message, which a function it calls may throw.
\<close>

datatype js_error = TypeError | Error string

text \<open>\<open>a ?? b\<close>: the right operand only when the left one is \<open>undefined\<close>.\<close>

definition nullish :: "'a option \<Rightarrow> 'a \<Rightarrow> 'a" where
  "nullish a b = (case a of None \<Rightarrow> b | Some x \<Rightarrow> x)"

text \<open>
  \<open>ToBoolean\<close> on a value of type \<open>T[] | undefined\<close>: every array is an object and
  therefore truthy, the empty one included; \<open>undefined\<close> is falsy.
\<close>

definition truthy :: "'a list option \<Rightarrow> bool" where
  "truthy a = (case a of None \<Rightarrow> False | Some xs \<Rightarrow> True)"

text \<open>
  A \<open>${x}\<close> hole of a template literal applies \<open>ToString\<close>: a string is inserted as
  it is, \<open>undefined\<close> as the nine characters of its name.
\<close>

definition template_hole :: "string option \<Rightarrow> string" where
  "template_hole x = (case x of None \<Rightarrow> ''undefined'' | Some s \<Rightarrow> s)"

text \<open>
  \<open>s.split(sep)\<close> for a one-character separator: the pieces between successive
  occurrences of the separator, in order; \<open>piece\<close> is the piece being read.
\<close>

fun split_from :: "char \<Rightarrow> string \<Rightarrow> string \<Rightarrow> string list" where
  "split_from sep piece [] = [piece]"
| "split_from sep piece (c # cs) =
     (if c = sep then piece # split_from sep [] cs
      else split_from sep (piece @ [c]) cs)"

definition string_split :: "string \<Rightarrow> char \<Rightarrow> string list" where
  "string_split s sep = split_from sep [] s"

text \<open>
  Reading position \<open>i\<close> of an array, as the destructuring \<open>[a, b] = xs\<close> does for
  positions 0 and 1: past the end the result is \<open>undefined\<close>.
\<close>

definition element_at :: "'a list \<Rightarrow> nat \<Rightarrow> 'a option" where
  "element_at xs i = (if i < length xs then Some (xs ! i) else None)"

text \<open>
  \<open>x.f\<close> throws when \<open>x\<close> is \<open>undefined\<close>; \<open>x?.rest\<close> is \<open>undefined\<close> when
  \<open>x\<close> is, and otherwise evaluates the rest of the chain on \<open>x\<close>.
\<close>

definition member :: "'a option \<Rightarrow> ('a \<Rightarrow> 'b) \<Rightarrow> js_error + 'b" where
  "member x f = (case x of None \<Rightarrow> Inl TypeError | Some v \<Rightarrow> Inr (f v))"

definition optional_chain :: "'a option \<Rightarrow> ('a \<Rightarrow> js_error + 'b) \<Rightarrow> js_error + 'b option" where
  "optional_chain x rest =
     (case x of
        None \<Rightarrow> Inr None
      | Some v \<Rightarrow> (case rest v of Inl e \<Rightarrow> Inl e | Inr r \<Rightarrow> Inr (Some r)))"

section \<open>The data model: \<open>WorkflowRun\<close>\<close>

text \<open>
  A column's render function receives a \<open>Partial<WorkflowRun>\<close>: every top-level
  property may be absent. Inside \<open>source\<close> the type requires \<open>commit\<close>; it is an
  option here so that a row breaking that contract can be written down. A callback
  \<open>() => void\<close> is a transformer of the state \<open>'s\<close> its owner keeps.
\<close>

record commit_info =
  hash :: string
  url :: string

record source_info =
  branchName :: string
  commit :: "commit_info option"

record 's WorkflowRun =
  run_id :: "string option"
  message :: "string option"
  run_url :: "string option"
  githubUrl :: "string option"
  source :: "source_info option"
  status :: "string option"
  conclusion :: "string option"
  onReRunClick :: "('s \<Rightarrow> 's) option"

section \<open>The columns\<close>

text \<open>
  The routing primitive \<open>generatePath\<close> and the route template \<open>buildRouteRef.path\<close>
  are imported: both are parameters. \<open>generatePath\<close> takes the template and the
  parameter object, here the list of its properties, and returns the path or throws.
\<close>

type_synonym path_params = "(string \<times> string option) list"

type_synonym path_generator = "string \<Rightarrow> path_params \<Rightarrow> js_error + string"

text \<open>What a render function returns, one constructor per JSX shape of the source.\<close>

datatype 's cell =
    Link string "string option"
  | Typography "string option" "string option"
  | Box_WorkflowRunStatus "string option" "string option"
  | Tooltip_IconButton "('s \<Rightarrow> 's) option"

record 's TableColumn =
  title :: string
  field :: "string option"
  type :: "string option"
  width :: "string option"
  highlight :: "bool option"
  render :: "('s WorkflowRun \<Rightarrow> js_error + 's cell) option"

text \<open>
  Message: a router link to the run's page, its text the run's message. The target is
  computed while the cell is rendered, so an exception of \<open>generatePath\<close> is an
  exception of the render function; \<open>row.id!\<close> checks nothing at run time.
\<close>

definition render_Message :: "path_generator \<Rightarrow> string \<Rightarrow> 's WorkflowRun \<Rightarrow> js_error + 's cell" where
  "render_Message generatePath buildRoute_path row =
     (case generatePath buildRoute_path [(''id'', run_id row)] of
        Inl e \<Rightarrow> Inl e
      | Inr target \<Rightarrow> Inr (Link target (message row)))"

text \<open>Source: \<open>row.source?.branchName\<close> over \<open>row.source?.commit.hash\<close>.\<close>

definition render_Source :: "'s WorkflowRun \<Rightarrow> js_error + 's cell" where
  "render_Source row =
     (case optional_chain (source row) (\<lambda>s. Inr (branchName s)) of
        Inl e \<Rightarrow> Inl e
      | Inr b \<Rightarrow>
          (case optional_chain (source row) (\<lambda>s. member (commit s) hash) of
             Inl e \<Rightarrow> Inl e
           | Inr h \<Rightarrow> Inr (Typography b h)))"

definition render_Status :: "'s WorkflowRun \<Rightarrow> js_error + 's cell" where
  "render_Status row = Inr (Box_WorkflowRunStatus (status row) (conclusion row))"

definition render_Actions :: "'s WorkflowRun \<Rightarrow> js_error + 's cell" where
  "render_Actions row = Inr (Tooltip_IconButton (onReRunClick row))"

definition generatedColumns :: "path_generator \<Rightarrow> string \<Rightarrow> 's TableColumn list" where
  "generatedColumns generatePath buildRoute_path =
     [\<lparr>title = ''ID'', field = Some ''id'', type = Some ''numeric'',
       width = Some ''150px'', highlight = None, render = None\<rparr>,
      \<lparr>title = ''Message'', field = Some ''message'', type = None,
       width = None, highlight = Some True,
       render = Some (render_Message generatePath buildRoute_path)\<rparr>,
      \<lparr>title = ''Source'', field = None, type = None,
       width = None, highlight = None, render = Some render_Source\<rparr>,
      \<lparr>title = ''Status'', field = None, type = None,
       width = Some ''150px'', highlight = None, render = Some render_Status\<rparr>,
      \<lparr>title = ''Actions'', field = None, type = None,
       width = Some ''10%'', highlight = None, render = Some render_Actions\<rparr>]"


section \<open>The view: \<open>WorkflowRunsTableView\<close>\<close>

text \<open>
  What the run-fetching hook \<open>useWorkflowRuns\<close> returns first: \<open>runs\<close> and the
  properties the container collects as \<open>...tableProps\<close>. \<open>projectName\<close> is among
  them, since the view requires it and the container passes it in no other way.
  Numbers are never computed with in this file; their type is the parameter \<open>'n\<close>.
\<close>

record ('s, 'n) WorkflowRunsState =
  runs :: "'s WorkflowRun list option"
  loading :: bool
  page :: 'n
  total :: 'n
  pageSize :: 'n
  projectName :: string

text \<open>The hook's second result: the handlers.\<close>

record ('s, 'n) WorkflowRunsActions =
  retry :: "'s \<Rightarrow> 's"
  setPage :: "'n \<Rightarrow> 's \<Rightarrow> 's"
  setPageSize :: "'n \<Rightarrow> 's \<Rightarrow> 's"

text \<open>\<open>Props\<close> of the view: the state's properties and three callbacks.\<close>

record ('s, 'n) Props = "('s, 'n) WorkflowRunsState" +
  retry :: "'s \<Rightarrow> 's"
  onChangePage :: "'n \<Rightarrow> 's \<Rightarrow> 's"
  onChangePageSize :: "'n \<Rightarrow> 's \<Rightarrow> 's"

text \<open>The properties the view sets on the generic \<open>Table\<close> widget.\<close>

datatype icon = SyncIcon | GitHubIcon | RetryIcon

record 'n TableOptions =
  paging :: bool
  pageSize :: 'n
  padding :: string

record 's TableAction =
  icon :: icon
  tooltip :: string
  isFreeAction :: bool
  onClick :: "'s \<Rightarrow> 's"

record ('s, 'n) Table =
  isLoading :: bool
  options :: "'n TableOptions"
  totalCount :: 'n
  page :: 'n
  actions :: "'s TableAction list"
  data :: "'s WorkflowRun list"
  onChangePage :: "'n \<Rightarrow> 's \<Rightarrow> 's"
  onChangeRowsPerPage :: "'n \<Rightarrow> 's \<Rightarrow> 's"
  style_width :: string
  title :: "icon \<times> string"
  columns :: "'s TableColumn list"

definition WorkflowRunsTableView ::
  "path_generator \<Rightarrow> string \<Rightarrow> ('s, 'n) Props \<Rightarrow> ('s, 'n) Table" where
  "WorkflowRunsTableView generatePath buildRoute_path props =
     \<lparr>isLoading = loading props,
      options = \<lparr>paging = True, pageSize = WorkflowRunsState.pageSize props,
                 padding = ''dense''\<rparr>,
      totalCount = total props,
      page = WorkflowRunsState.page props,
      actions = [\<lparr>icon = SyncIcon, tooltip = ''Reload workflow runs'',
                  isFreeAction = True, onClick = (\<lambda>s. Props.retry props s)\<rparr>],
      data = nullish (runs props) [],
      onChangePage = Props.onChangePage props,
      onChangeRowsPerPage = onChangePageSize props,
      style_width = ''100%'',
      title = (GitHubIcon, projectName props),
      columns = generatedColumns generatePath buildRoute_path\<rparr>"

section \<open>The container: \<open>WorkflowRunsTable\<close>\<close>

text \<open>
  The project-name hook \<open>useProjectName\<close> returns \<open>{value, loading}\<close>; the entity
  it reads is opaque, of type \<open>'e\<close>. Both hooks are parameters of the container.
\<close>

record ProjectNameState =
  project_value :: "string option"
  project_loading :: bool

record WorkflowRunsArgs =
  owner :: "string option"
  repo :: "string option"
  branch :: "string option"

text \<open>The empty-state panel and its call-to-action button.\<close>

record Button =
  variant :: string
  color :: string
  href :: string
  children :: string

record EmptyState =
  missing :: string
  title :: string
  description :: string
  action :: Button

text \<open>What the container returns: one of the two JSX elements of its last expression.\<close>

datatype ('s, 'n) element =
    is_EmptyState: EmptyState_element EmptyState
  | is_View: WorkflowRunsTableView_element "('s, 'n) Props"

text \<open>
  The argument of \<open>useWorkflowRuns\<close>: \<open>owner\<close> and \<open>repo\<close> are the first two
  pieces of \<open>(projectName ?? '/').split('/')\<close>.
\<close>

definition useWorkflowRuns_args :: "string option \<Rightarrow> string option \<Rightarrow> WorkflowRunsArgs" where
  "useWorkflowRuns_args projectName branch =
     (let pieces = string_split (nullish projectName ''/'') CHR ''/''
      in \<lparr>owner = element_at pieces 0, repo = element_at pieces 1, branch = branch\<rparr>)"
  for projectName branch

definition WorkflowRunsTable ::
  "('e \<Rightarrow> ProjectNameState) \<Rightarrow>
   (WorkflowRunsArgs \<Rightarrow> ('s, 'n) WorkflowRunsState \<times> ('s, 'n) WorkflowRunsActions) \<Rightarrow>
   'e \<Rightarrow> string option \<Rightarrow> ('s, 'n) element" where
  "WorkflowRunsTable useProjectName useWorkflowRuns entity branch =
     (let projectName = project_value (useProjectName entity);
          loading = project_loading (useProjectName entity);
          (tableProps, handlers) = useWorkflowRuns (useWorkflowRuns_args projectName branch)
      in if \<not> truthy (runs tableProps) then
           EmptyState_element
             \<lparr>missing = ''data'',
              title = ''No Workflow Data'',
              description = ''This component has Github Actions enabled, but no data was found. Have you created any Workflows? Click the button below to create a new Workflow.'',
              action =
                \<lparr>variant = ''contained'', color = ''primary'',
                 href = ''https://github.com/'' @ template_hole projectName @ ''/actions/new'',
                 children = ''Create new Workflow''\<rparr>\<rparr>
         else
           WorkflowRunsTableView_element
             \<lparr>runs = runs tableProps,
              loading = (loading \<or> WorkflowRunsState.loading tableProps),
              page = WorkflowRunsState.page tableProps,
              total = total tableProps,
              pageSize = WorkflowRunsState.pageSize tableProps,
              projectName = WorkflowRunsState.projectName tableProps,
              retry = WorkflowRunsActions.retry handlers,
              onChangePage = setPage handlers,
              onChangePageSize = setPageSize handlers\<rparr>)"
  for projectName loading branch

section \<open>Sample collaborators\<close>

text \<open>
  Concrete stand-ins for the imported collaborators, on which the theorems below are
  evaluated: the router's path generator, handlers over a counter, a well-formed
  run, and the two hooks returning fixed results. The run-fetching hook answers with
  the \<open>owner\<close> and \<open>repo\<close> it was called with as its \<open>projectName\<close>.
\<close>

text \<open>
  The router's \<open>generatePath\<close> on the placeholders \<open>:name\<close> of a template (a
  trailing \<open>*\<close> is not modelled): from left to right each placeholder, a colon and
  the word characters after it, is replaced by the parameter of that name, and a
  parameter that is missing or \<open>undefined\<close> throws an \<open>Error\<close> naming it.
\<close>

definition word_char :: "char \<Rightarrow> bool" where
  "word_char c =
     (c \<in> set ''abcdefghijklmnopqrstuvwxyzABCDEFGHIJKLMNOPQRSTUVWXYZ0123456789_'')"

function fill_params :: "path_params \<Rightarrow> string \<Rightarrow> js_error + string" where
  "fill_params params [] = Inr []"
| "fill_params params (c # cs) =
     (if c = CHR '':'' \<and> takeWhile word_char cs \<noteq> [] then
        (case map_of params (takeWhile word_char cs) of
           Some (Some v) \<Rightarrow>
             (case fill_params params (dropWhile word_char cs) of
                Inl e \<Rightarrow> Inl e
              | Inr rest \<Rightarrow> Inr (v @ rest))
         | _ \<Rightarrow>
             Inl (Error (''Missing '' @ [CHR 0x22] @ '':'' @ takeWhile word_char cs
                          @ [CHR 0x22] @ '' param'')))
      else
        (case fill_params params cs of
           Inl e \<Rightarrow> Inl e
         | Inr rest \<Rightarrow> Inr (c # rest)))"
  by pat_completeness auto
termination
  by (relation "measure (\<lambda>(params, s). length s)")
     (auto simp: less_Suc_eq_le length_dropWhile_le)

definition router_generatePath :: path_generator where
  "router_generatePath path params = fill_params params path"

definition sample_handlers :: "(nat, nat) WorkflowRunsActions" where
  "sample_handlers =
     \<lparr>WorkflowRunsActions.retry = Suc, setPage = (\<lambda>n s. n), setPageSize = (\<lambda>n s. s + n)\<rparr>"

definition sample_run :: "string \<Rightarrow> string \<Rightarrow> nat WorkflowRun" where
  "sample_run i m =
     \<lparr>run_id = Some i, message = Some m, run_url = None, githubUrl = None,
      source = Some \<lparr>branchName = ''master'',
                     commit = Some \<lparr>hash = ''3f9a2c1'',
                                    url = ''https://github.com/acme/widgets/commit/3f9a2c1''\<rparr>\<rparr>,
      status = Some ''completed'', conclusion = Some ''success'',
      onReRunClick = Some Suc\<rparr>"

definition sample_useProjectName :: "string option \<Rightarrow> bool \<Rightarrow> unit \<Rightarrow> ProjectNameState" where
  "sample_useProjectName name l entity = \<lparr>project_value = name, project_loading = l\<rparr>"

definition sample_useWorkflowRuns ::
  "nat WorkflowRun list option \<Rightarrow> bool \<Rightarrow> WorkflowRunsArgs \<Rightarrow>
   (nat, nat) WorkflowRunsState \<times> (nat, nat) WorkflowRunsActions" where
  "sample_useWorkflowRuns rs l args =
     (\<lparr>runs = rs, loading = l, page = 0, total = 2, pageSize = 5,
       projectName = template_hole (owner args) @ ''/'' @ template_hole (repo args)\<rparr>,
      sample_handlers)"

definition sample_props :: "nat WorkflowRun list option \<Rightarrow> (nat, nat) Props" where
  "sample_props rs =
     \<lparr>runs = rs, loading = False, page = 0, total = 2, pageSize = 5,
      projectName = ''acme/widgets'',
      retry = Suc, onChangePage = (\<lambda>n s. n), onChangePageSize = (\<lambda>n s. s + n)\<rparr>"

section \<open>Splitting a string\<close>

lemma split_from_nonempty: "split_from sep piece s \<noteq> []"
  by (induction s arbitrary: piece) auto

lemma hd_split_from:
  "hd (split_from sep piece s) = piece @ takeWhile (\<lambda>c. c \<noteq> sep) s"
  by (induction s arbitrary: piece) auto

lemma split_from_no_sep: "sep \<notin> set a \<Longrightarrow> split_from sep piece a = [piece @ a]"
  by (induction a arbitrary: piece) auto

lemma split_from_sep:
  "sep \<notin> set a \<Longrightarrow>
   split_from sep piece (a @ sep # rest) = (piece @ a) # split_from sep [] rest"
  by (induction a arbitrary: piece) auto

text \<open>The first piece always exists: it is the text before the first separator.\<close>

lemma string_split_first:
  "element_at (string_split s sep) 0 = Some (takeWhile (\<lambda>c. c \<noteq> sep) s)"
  using split_from_nonempty [of sep "[]" s] hd_split_from [of sep "[]" s]
  by (simp add: element_at_def string_split_def hd_conv_nth)

text \<open>A string with exactly one separator splits into the two sides of it.\<close>

lemma string_split_two:
  "sep \<notin> set a \<Longrightarrow> sep \<notin> set b \<Longrightarrow> string_split (a @ sep # b) sep = [a, b]"
  by (simp add: string_split_def split_from_sep split_from_no_sep)

text \<open>A string with no separator is a single piece: there is no second one.\<close>

lemma string_split_second_absent:
  "sep \<notin> set s \<Longrightarrow> element_at (string_split s sep) 1 = None"
  by (simp add: string_split_def split_from_no_sep element_at_def)

section \<open>The two branches of the container\<close>

lemma WorkflowRunsTable_absent:
  assumes "runs (fst (uwr (useWorkflowRuns_args (project_value (upn e)) b))) = None"
  shows "\<exists>es. WorkflowRunsTable upn uwr e b = EmptyState_element es \<and>
     href (action es) =
       ''https://github.com/'' @ template_hole (project_value (upn e)) @ ''/actions/new''"
  using assms
  by (cases "uwr (useWorkflowRuns_args (project_value (upn e)) b)")
     (simp add: WorkflowRunsTable_def truthy_def Let_def)

lemma WorkflowRunsTable_present:
  assumes "uwr (useWorkflowRuns_args (project_value (upn e)) b) = (st, hs)"
      and "runs st = Some rs"
  shows "WorkflowRunsTable upn uwr e b =
     WorkflowRunsTableView_element
       \<lparr>runs = Some rs,
        loading = (project_loading (upn e) \<or> loading st),
        page = WorkflowRunsState.page st,
        total = WorkflowRunsState.total st,
        pageSize = WorkflowRunsState.pageSize st,
        projectName = projectName st,
        retry = WorkflowRunsActions.retry hs,
        onChangePage = setPage hs,
        onChangePageSize = setPageSize hs\<rparr>"
  using assms by (simp add: WorkflowRunsTable_def truthy_def Let_def)

text \<open>
  Claim C1. For every result of the two hooks, the container returns the empty-state
  panel exactly when \<open>runs\<close> is \<open>undefined\<close> and the view exactly when \<open>runs\<close> is
  an array. Whatever the fetcher returns otherwise, an empty array with any
  \<open>loading\<close> flag gives the view, and \<open>undefined\<close> with any \<open>loading\<close> flag gives
  the panel.
\<close>

theorem container_branches_on_runs_presence:
  "is_EmptyState (WorkflowRunsTable upn uwr e b)
     = (runs (fst (uwr (useWorkflowRuns_args (project_value (upn e)) b))) = None)
   \<and> is_View (WorkflowRunsTable upn uwr e b)
     = (\<exists>rs. runs (fst (uwr (useWorkflowRuns_args (project_value (upn e)) b))) = Some rs)
   \<and> is_View (WorkflowRunsTable upn
        (\<lambda>args. (fst (uwr args)\<lparr>runs := Some [], loading := l\<rparr>, snd (uwr args))) e b)
   \<and> is_EmptyState (WorkflowRunsTable upn
        (\<lambda>args. (fst (uwr args)\<lparr>runs := None, loading := l\<rparr>, snd (uwr args))) e b)"
  by (simp add: WorkflowRunsTable_def truthy_def Let_def split: prod.splits option.splits)

text \<open>
  Claim C2. Whenever \<open>runs\<close> is present the container returns the view, and the
  \<open>loading\<close> property it passes is the disjunction of the project-name hook's flag
  and the run-fetching hook's flag; the view hands that value to the table as
  \<open>isLoading\<close>, so the indicator shows exactly when one of the two is in flight.
\<close>

theorem view_loading_is_or_of_flags:
  assumes "runs (fst (uwr (useWorkflowRuns_args (project_value (upn e)) b))) = Some rs"
  shows "\<exists>props. WorkflowRunsTable upn uwr e b = WorkflowRunsTableView_element props
      \<and> loading props =
          (project_loading (upn e)
           \<or> loading (fst (uwr (useWorkflowRuns_args (project_value (upn e)) b))))
      \<and> isLoading (WorkflowRunsTableView generatePath buildRoute_path props) =
          (project_loading (upn e)
           \<or> loading (fst (uwr (useWorkflowRuns_args (project_value (upn e)) b))))"
proof -
  obtain st hs where call: "uwr (useWorkflowRuns_args (project_value (upn e)) b) = (st, hs)"
    by (cases "uwr (useWorkflowRuns_args (project_value (upn e)) b)")
  with assms have "runs st = Some rs" by simp
  from WorkflowRunsTable_present [of uwr upn e b st hs rs, OF call this] call show ?thesis
    by (simp add: WorkflowRunsTableView_def)
qed

text \<open>The four combinations of the two flags, on an empty but present list of runs.\<close>

theorem view_loading_is_or_of_flags_witness:
  "(\<exists>props. WorkflowRunsTable (sample_useProjectName (Some ''acme/widgets'') False)
        (sample_useWorkflowRuns (Some []) False) () None = WorkflowRunsTableView_element props
      \<and> \<not> loading props
      \<and> \<not> isLoading (WorkflowRunsTableView router_generatePath ''/workflow-run/:id'' props))
   \<and> (\<exists>props. WorkflowRunsTable (sample_useProjectName (Some ''acme/widgets'') True)
        (sample_useWorkflowRuns (Some []) False) () None = WorkflowRunsTableView_element props
      \<and> loading props
      \<and> isLoading (WorkflowRunsTableView router_generatePath ''/workflow-run/:id'' props))
   \<and> (\<exists>props. WorkflowRunsTable (sample_useProjectName (Some ''acme/widgets'') False)
        (sample_useWorkflowRuns (Some []) True) () None = WorkflowRunsTableView_element props
      \<and> loading props
      \<and> isLoading (WorkflowRunsTableView router_generatePath ''/workflow-run/:id'' props))
   \<and> (\<exists>props. WorkflowRunsTable (sample_useProjectName (Some ''acme/widgets'') True)
        (sample_useWorkflowRuns (Some []) True) () None = WorkflowRunsTableView_element props
      \<and> loading props
      \<and> isLoading (WorkflowRunsTableView router_generatePath ''/workflow-run/:id'' props))"
  using view_loading_is_or_of_flags
          [of "sample_useWorkflowRuns (Some []) False"
              "sample_useProjectName (Some ''acme/widgets'') False" "()" None "[]"
              router_generatePath "''/workflow-run/:id''"]
        view_loading_is_or_of_flags
          [of "sample_useWorkflowRuns (Some []) False"
              "sample_useProjectName (Some ''acme/widgets'') True" "()" None "[]"
              router_generatePath "''/workflow-run/:id''"]
        view_loading_is_or_of_flags
          [of "sample_useWorkflowRuns (Some []) True"
              "sample_useProjectName (Some ''acme/widgets'') False" "()" None "[]"
              router_generatePath "''/workflow-run/:id''"]
        view_loading_is_or_of_flags
          [of "sample_useWorkflowRuns (Some []) True"
              "sample_useProjectName (Some ''acme/widgets'') True" "()" None "[]"
              router_generatePath "''/workflow-run/:id''"]
  by (simp add: sample_useWorkflowRuns_def sample_useProjectName_def)

text \<open>
  Claim C3. For every resolved project name the argument of the run-fetcher has as
  \<open>owner\<close> the first piece of the name split on \<open>/\<close> (the text before the first
  \<open>/\<close>) and as \<open>repo\<close> the second piece (\<open>undefined\<close> when the name has no
  \<open>/\<close>); a name with one \<open>/\<close> gives its two sides. When the lookup returns
  \<open>undefined\<close> the string \<open>"/"\<close> is split instead, giving the empty string twice.
  The container calls the fetcher on exactly that argument and no check stands in
  between: it returns the view precisely when the fetcher's answer on that argument
  has \<open>runs\<close>, and the view's properties are then those of that answer.
\<close>

theorem owner_repo_from_project_name:
  "useWorkflowRuns_args (Some name) b =
     \<lparr>owner = element_at (string_split name CHR ''/'') 0,
      repo = element_at (string_split name CHR ''/'') 1, branch = b\<rparr>
   \<and> owner (useWorkflowRuns_args (Some name) b) = Some (takeWhile (\<lambda>c. c \<noteq> CHR ''/'') name)
   \<and> (CHR ''/'' \<notin> set left \<and> CHR ''/'' \<notin> set right \<longrightarrow>
        useWorkflowRuns_args (Some (left @ ''/'' @ right)) b =
          \<lparr>owner = Some left, repo = Some right, branch = b\<rparr>)
   \<and> useWorkflowRuns_args None b = useWorkflowRuns_args (Some ''/'') b
   \<and> useWorkflowRuns_args None b = \<lparr>owner = Some '''', repo = Some '''', branch = b\<rparr>
   \<and> WorkflowRunsTable upn uwr e b =
       WorkflowRunsTable upn
         (\<lambda>args. uwr (useWorkflowRuns_args (project_value (upn e)) b)) e b
   \<and> is_View (WorkflowRunsTable upn uwr e b) =
       (\<exists>rs. runs (fst (uwr
          \<lparr>owner = element_at (string_split (nullish (project_value (upn e)) ''/'') CHR ''/'') 0,
           repo = element_at (string_split (nullish (project_value (upn e)) ''/'') CHR ''/'') 1,
           branch = b\<rparr>)) = Some rs)
   \<and> (\<forall>st hs rs.
         uwr \<lparr>owner = element_at (string_split (nullish (project_value (upn e)) ''/'') CHR ''/'') 0,
              repo = element_at (string_split (nullish (project_value (upn e)) ''/'') CHR ''/'') 1,
              branch = b\<rparr> = (st, hs)
         \<and> runs st = Some rs \<longrightarrow>
         WorkflowRunsTable upn uwr e b =
           WorkflowRunsTableView_element
             \<lparr>runs = Some rs,
              loading = (project_loading (upn e) \<or> loading st),
              page = WorkflowRunsState.page st,
              total = WorkflowRunsState.total st,
              pageSize = WorkflowRunsState.pageSize st,
              projectName = projectName st,
              retry = WorkflowRunsActions.retry hs,
              onChangePage = setPage hs,
              onChangePageSize = setPageSize hs\<rparr>)
   \<and> (project_value (upn e) = None \<longrightarrow>
        is_View (WorkflowRunsTable upn uwr e b) =
          (\<exists>rs. runs (fst (uwr \<lparr>owner = Some '''', repo = Some '''', branch = b\<rparr>)) = Some rs))"
proof -
  let ?pieces = "string_split (nullish (project_value (upn e)) ''/'') CHR ''/''"
  let ?args = "\<lparr>owner = element_at ?pieces 0, repo = element_at ?pieces 1, branch = b\<rparr>"
  have args: "useWorkflowRuns_args (project_value (upn e)) b = ?args"
    by (simp add: useWorkflowRuns_args_def Let_def)
  have split_name: "useWorkflowRuns_args (Some name) b =
     \<lparr>owner = element_at (string_split name CHR ''/'') 0,
      repo = element_at (string_split name CHR ''/'') 1, branch = b\<rparr>"
    by (simp add: useWorkflowRuns_args_def nullish_def Let_def)
  have first: "owner (useWorkflowRuns_args (Some name) b)
          = Some (takeWhile (\<lambda>c. c \<noteq> CHR ''/'') name)"
    by (simp add: useWorkflowRuns_args_def nullish_def Let_def string_split_first)
  have two_sides: "useWorkflowRuns_args (Some (left @ ''/'' @ right)) b =
          \<lparr>owner = Some left, repo = Some right, branch = b\<rparr>"
    if "CHR ''/'' \<notin> set left \<and> CHR ''/'' \<notin> set right"
  proof -
    from that have "string_split (left @ CHR ''/'' # right) CHR ''/'' = [left, right]"
      by (simp add: string_split_two)
    then show ?thesis
      by (simp add: useWorkflowRuns_args_def nullish_def element_at_def)
  qed
  have slash: "useWorkflowRuns_args None b = useWorkflowRuns_args (Some ''/'') b"
    by (simp add: useWorkflowRuns_args_def nullish_def)
  have degenerate:
    "useWorkflowRuns_args None b = \<lparr>owner = Some '''', repo = Some '''', branch = b\<rparr>"
    by (simp add: useWorkflowRuns_args_def nullish_def string_split_def element_at_def)
  have only_call: "WorkflowRunsTable upn uwr e b =
       WorkflowRunsTable upn
         (\<lambda>args. uwr (useWorkflowRuns_args (project_value (upn e)) b)) e b"
    by (simp add: WorkflowRunsTable_def Let_def)
  have view_iff: "is_View (WorkflowRunsTable upn uwr e b) =
       (\<exists>rs. runs (fst (uwr ?args)) = Some rs)"
    unfolding args [symmetric]
    by (simp add: WorkflowRunsTable_def truthy_def Let_def split: prod.splits option.splits)
  have view_props: "WorkflowRunsTable upn uwr e b =
           WorkflowRunsTableView_element
             \<lparr>runs = Some rs,
              loading = (project_loading (upn e) \<or> loading st),
              page = WorkflowRunsState.page st,
              total = WorkflowRunsState.total st,
              pageSize = WorkflowRunsState.pageSize st,
              projectName = projectName st,
              retry = WorkflowRunsActions.retry hs,
              onChangePage = setPage hs,
              onChangePageSize = setPageSize hs\<rparr>"
    if "uwr ?args = (st, hs) \<and> runs st = Some rs" for st hs rs
  proof -
    from that have "uwr (useWorkflowRuns_args (project_value (upn e)) b) = (st, hs)"
      and "runs st = Some rs"
      by (simp_all add: args)
    then show ?thesis
      by (rule WorkflowRunsTable_present)
  qed
  have view_iff_undefined: "is_View (WorkflowRunsTable upn uwr e b) =
          (\<exists>rs. runs (fst (uwr \<lparr>owner = Some '''', repo = Some '''', branch = b\<rparr>)) = Some rs)"
    if "project_value (upn e) = None"
    using that
    by (simp add: WorkflowRunsTable_def truthy_def Let_def degenerate
             split: prod.splits option.splits)
  from split_name first two_sides slash degenerate only_call view_iff view_props
    view_iff_undefined
  show ?thesis by blast
qed

text \<open>
  On the sample hooks: the fetcher's answer carries the \<open>owner\<close> and \<open>repo\<close> it
  was called with, and the view the container returns shows them.
\<close>

theorem owner_repo_from_project_name_witness:
  "CHR ''/'' \<notin> set ''backstage'' \<and> CHR ''/'' \<notin> set ''catalog''
   \<and> useWorkflowRuns_args (Some ''backstage/catalog'') (Some ''master'') =
       \<lparr>owner = Some ''backstage'', repo = Some ''catalog'', branch = Some ''master''\<rparr>
   \<and> (\<exists>props. WorkflowRunsTable (sample_useProjectName (Some ''backstage/catalog'') False)
          (sample_useWorkflowRuns (Some []) False) () (Some ''master'')
            = WorkflowRunsTableView_element props
        \<and> projectName props = ''backstage/catalog'')
   \<and> project_value (sample_useProjectName None False ()) = None
   \<and> is_View (WorkflowRunsTable (sample_useProjectName None False)
          (sample_useWorkflowRuns (Some []) False) () (Some ''master''))
   \<and> \<not> is_View (WorkflowRunsTable (sample_useProjectName None False)
          (sample_useWorkflowRuns None False) () (Some ''master''))"
proof -
  let ?upn = "sample_useProjectName (Some ''backstage/catalog'') False"
  let ?uwr = "sample_useWorkflowRuns (Some []) False"
  have sep: "CHR ''/'' \<notin> set ''backstage'' \<and> CHR ''/'' \<notin> set ''catalog''"
    by simp
  note inst = owner_repo_from_project_name
               [of "''backstage/catalog''" "Some ''master''" "''backstage''" "''catalog''"
                   ?upn ?uwr "()"]
  have args: "useWorkflowRuns_args (Some (''backstage'' @ ''/'' @ ''catalog'')) (Some ''master'') =
       \<lparr>owner = Some ''backstage'', repo = Some ''catalog'', branch = Some ''master''\<rparr>"
    using inst sep by blast
  have pieces: "string_split (nullish (project_value (?upn ())) ''/'') CHR ''/''
                  = [''backstage'', ''catalog'']"
    by (simp add: sample_useProjectName_def nullish_def string_split_def)
  have call: "?uwr \<lparr>owner = element_at (string_split (nullish (project_value (?upn ())) ''/'') CHR ''/'') 0,
                    repo = element_at (string_split (nullish (project_value (?upn ())) ''/'') CHR ''/'') 1,
                    branch = Some ''master''\<rparr>
       = (\<lparr>runs = Some [], loading = False, page = 0, total = 2, pageSize = 5,
           projectName = ''backstage/catalog''\<rparr>, sample_handlers)
     \<and> runs \<lparr>runs = Some [], loading = False, page = 0, total = 2, pageSize = 5,
           projectName = ''backstage/catalog''\<rparr> = Some ([] :: nat WorkflowRun list)"
    by (simp add: pieces sample_useWorkflowRuns_def element_at_def template_hole_def)
  have shown: "\<exists>props. WorkflowRunsTable ?upn ?uwr () (Some ''master'')
            = WorkflowRunsTableView_element props
        \<and> projectName props = ''backstage/catalog''"
    using inst call by (metis WorkflowRunsState.select_convs(6))
  have undef: "project_value (sample_useProjectName None False ()) = None"
    by (simp add: sample_useProjectName_def)
  have "is_View (WorkflowRunsTable (sample_useProjectName None False)
          (sample_useWorkflowRuns (Some []) False) () (Some ''master'')) =
        (\<exists>rs. runs (fst (sample_useWorkflowRuns (Some []) False
           \<lparr>owner = Some '''', repo = Some '''', branch = Some ''master''\<rparr>)) = Some rs)"
    using owner_repo_from_project_name
            [of "''backstage/catalog''" "Some ''master''" "''backstage''" "''catalog''"
                "sample_useProjectName None False" "sample_useWorkflowRuns (Some []) False" "()"]
          undef
    by blast
  then have present: "is_View (WorkflowRunsTable (sample_useProjectName None False)
          (sample_useWorkflowRuns (Some []) False) () (Some ''master''))"
    by (simp add: sample_useWorkflowRuns_def)
  have "is_View (WorkflowRunsTable (sample_useProjectName None False)
          (sample_useWorkflowRuns None False) () (Some ''master'')) =
        (\<exists>rs. runs (fst (sample_useWorkflowRuns None False
           \<lparr>owner = Some '''', repo = Some '''', branch = Some ''master''\<rparr>)) = Some rs)"
    using owner_repo_from_project_name
            [of "''backstage/catalog''" "Some ''master''" "''backstage''" "''catalog''"
                "sample_useProjectName None False" "sample_useWorkflowRuns None False" "()"]
          undef
    by blast
  then have absent: "\<not> is_View (WorkflowRunsTable (sample_useProjectName None False)
          (sample_useWorkflowRuns None False) () (Some ''master''))"
    by (simp add: sample_useWorkflowRuns_def)
  from sep args shown undef present absent show ?thesis by simp
qed

text \<open>
  Claim C4. When the project name resolves to \<open>acme/widgets\<close>, the run-fetcher is
  called with owner \<open>acme\<close> and repo \<open>widgets\<close>: the container returns the view
  exactly when the fetcher's answer on that argument has \<open>runs\<close>, with the
  properties of that answer, and the panel exactly when it has none. Whenever the
  container returns the empty-state panel the \<open>href\<close> of its button is
  \<open>https://github.com/acme/widgets/actions/new\<close>.
\<close>

theorem acme_widgets_scenario:
  assumes "project_value (upn e) = Some ''acme/widgets''"
  shows "useWorkflowRuns_args (project_value (upn e)) b =
           \<lparr>owner = Some ''acme'', repo = Some ''widgets'', branch = b\<rparr>
     \<and> WorkflowRunsTable upn uwr e b =
         WorkflowRunsTable upn
           (\<lambda>args. uwr \<lparr>owner = Some ''acme'', repo = Some ''widgets'', branch = b\<rparr>) e b
     \<and> (\<forall>es. WorkflowRunsTable upn uwr e b = EmptyState_element es \<longrightarrow>
           href (action es) = ''https://github.com/acme/widgets/actions/new'')
     \<and> is_View (WorkflowRunsTable upn uwr e b) =
         (\<exists>rs. runs (fst (uwr \<lparr>owner = Some ''acme'', repo = Some ''widgets'', branch = b\<rparr>))
                  = Some rs)
     \<and> is_EmptyState (WorkflowRunsTable upn uwr e b) =
         (runs (fst (uwr \<lparr>owner = Some ''acme'', repo = Some ''widgets'', branch = b\<rparr>)) = None)
     \<and> (\<forall>st hs rs.
           uwr \<lparr>owner = Some ''acme'', repo = Some ''widgets'', branch = b\<rparr> = (st, hs)
           \<and> runs st = Some rs \<longrightarrow>
           WorkflowRunsTable upn uwr e b =
             WorkflowRunsTableView_element
               \<lparr>runs = Some rs,
                loading = (project_loading (upn e) \<or> loading st),
                page = WorkflowRunsState.page st,
                total = WorkflowRunsState.total st,
                pageSize = WorkflowRunsState.pageSize st,
                projectName = projectName st,
                retry = WorkflowRunsActions.retry hs,
                onChangePage = setPage hs,
                onChangePageSize = setPageSize hs\<rparr>)"
proof -
  let ?acme = "\<lparr>owner = Some ''acme'', repo = Some ''widgets'', branch = b\<rparr>"
  have args: "useWorkflowRuns_args (project_value (upn e)) b = ?acme"
    using assms
    by (simp add: useWorkflowRuns_args_def nullish_def string_split_def element_at_def)
  have call: "WorkflowRunsTable upn uwr e b = WorkflowRunsTable upn (\<lambda>args. uwr ?acme) e b"
    by (simp add: WorkflowRunsTable_def Let_def args)
  have link: "href (action es) = ''https://github.com/acme/widgets/actions/new''"
    if "WorkflowRunsTable upn uwr e b = EmptyState_element es" for es
    using that assms
    by (auto simp: WorkflowRunsTable_def template_hole_def Let_def
             split: prod.splits if_splits)
  have view_iff: "is_View (WorkflowRunsTable upn uwr e b) =
         (\<exists>rs. runs (fst (uwr ?acme)) = Some rs)"
    unfolding args [symmetric]
    by (simp add: WorkflowRunsTable_def truthy_def Let_def split: prod.splits option.splits)
  have panel_iff: "is_EmptyState (WorkflowRunsTable upn uwr e b) =
         (runs (fst (uwr ?acme)) = None)"
    unfolding args [symmetric]
    by (simp add: WorkflowRunsTable_def truthy_def Let_def split: prod.splits option.splits)
  have view_props: "WorkflowRunsTable upn uwr e b =
             WorkflowRunsTableView_element
               \<lparr>runs = Some rs,
                loading = (project_loading (upn e) \<or> loading st),
                page = WorkflowRunsState.page st,
                total = WorkflowRunsState.total st,
                pageSize = WorkflowRunsState.pageSize st,
                projectName = projectName st,
                retry = WorkflowRunsActions.retry hs,
                onChangePage = setPage hs,
                onChangePageSize = setPageSize hs\<rparr>"
    if "uwr ?acme = (st, hs) \<and> runs st = Some rs" for st hs rs
  proof -
    from that have "uwr (useWorkflowRuns_args (project_value (upn e)) b) = (st, hs)"
      and "runs st = Some rs"
      by (simp_all add: args)
    then show ?thesis
      by (rule WorkflowRunsTable_present)
  qed
  from args call link view_iff panel_iff view_props show ?thesis by blast
qed

text \<open>
  On the sample hooks: without runs the panel links to the repository's page; with
  runs the view shows the \<open>acme/widgets\<close> the fetcher was called with.
\<close>

theorem acme_widgets_scenario_witness:
  "project_value (sample_useProjectName (Some ''acme/widgets'') False ()) = Some ''acme/widgets''
   \<and> useWorkflowRuns_args (Some ''acme/widgets'') (Some ''master'') =
       \<lparr>owner = Some ''acme'', repo = Some ''widgets'', branch = Some ''master''\<rparr>
   \<and> (\<exists>es. WorkflowRunsTable (sample_useProjectName (Some ''acme/widgets'') False)
              (sample_useWorkflowRuns None False) () (Some ''master'') = EmptyState_element es
          \<and> href (action es) = ''https://github.com/acme/widgets/actions/new'')
   \<and> (\<exists>props. WorkflowRunsTable (sample_useProjectName (Some ''acme/widgets'') False)
              (sample_useWorkflowRuns (Some []) False) () (Some ''master'')
                = WorkflowRunsTableView_element props
          \<and> projectName props = ''acme/widgets'')"
proof -
  let ?upn = "sample_useProjectName (Some ''acme/widgets'') False"
  have name: "project_value (?upn ()) = Some ''acme/widgets''"
    by (simp add: sample_useProjectName_def)
  have panel: "\<exists>es. WorkflowRunsTable ?upn
              (sample_useWorkflowRuns None False) () (Some ''master'') = EmptyState_element es"
    by (simp add: WorkflowRunsTable_def sample_useWorkflowRuns_def truthy_def Let_def)
  have call: "sample_useWorkflowRuns (Some []) False
                \<lparr>owner = Some ''acme'', repo = Some ''widgets'', branch = Some ''master''\<rparr>
       = (\<lparr>runs = Some [], loading = False, page = 0, total = 2, pageSize = 5,
           projectName = ''acme/widgets''\<rparr>, sample_handlers)
     \<and> runs \<lparr>runs = Some [], loading = False, page = 0, total = 2, pageSize = 5,
           projectName = ''acme/widgets''\<rparr> = Some ([] :: nat WorkflowRun list)"
    by (simp add: sample_useWorkflowRuns_def template_hole_def)
  have view: "\<exists>props. WorkflowRunsTable ?upn
              (sample_useWorkflowRuns (Some []) False) () (Some ''master'')
                = WorkflowRunsTableView_element props
          \<and> projectName props = ''acme/widgets''"
    using acme_widgets_scenario
            [of ?upn "()" "Some ''master''" "sample_useWorkflowRuns (Some []) False", OF name]
          call
    by (metis WorkflowRunsState.select_convs(6))
  from acme_widgets_scenario
         [of ?upn "()" "Some ''master''" "sample_useWorkflowRuns None False", OF name]
       name panel view
  show ?thesis by auto
qed

section \<open>The table the view renders\<close>

lemma generatedColumns_titles:
  "map TableColumn.title (generatedColumns generatePath buildRoute_path)
     = [''ID'', ''Message'', ''Source'', ''Status'', ''Actions'']"
  by (simp add: generatedColumns_def)

lemma Message_column:
  "generatedColumns generatePath buildRoute_path ! Suc 0 =
     \<lparr>TableColumn.title = ''Message'', field = Some ''message'', type = None, width = None,
      highlight = Some True, render = Some (render_Message generatePath buildRoute_path)\<rparr>"
  by (simp add: generatedColumns_def)

text \<open>With a generator that never throws, the Message cell is always a link.\<close>

lemma render_Message_total_generator:
  "render_Message (\<lambda>template params. Inr (g template params)) buildRoute_path row
     = Inr (Link (g buildRoute_path [(''id'', run_id row)]) (message row))"
  by (simp add: render_Message_def)

text \<open>The Source cell, by what the row holds.\<close>

lemma render_Source_cases:
  "render_Source row =
     (case source row of
        None \<Rightarrow> Inr (Typography None None)
      | Some s \<Rightarrow>
          (case commit s of
             None \<Rightarrow> Inl TypeError
           | Some c \<Rightarrow> Inr (Typography (Some (branchName s)) (Some (hash c)))))"
  by (simp add: render_Source_def optional_chain_def member_def split: option.splits)

text \<open>
  Claim C5. For every array \<open>runs\<close> whose elements have \<open>id\<close>, \<open>message\<close> and
  \<open>source\<close>, the view passes exactly that array as the table's \<open>data\<close> (so as many
  rows as the array is long), and the render function of the Message column, the
  second column, turns each row into a link whose target is the path \<open>generatePath\<close>
  returns for the route template and that row's \<open>id\<close>, with the row's message as
  its text; the cell fails only as \<open>generatePath\<close> does on that \<open>id\<close>.
\<close>

theorem view_rows_and_message_links:
  assumes "runs props = Some rs"
      and "\<forall>r \<in> set rs. run_id r \<noteq> None \<and> message r \<noteq> None \<and> source r \<noteq> None"
  shows "data (WorkflowRunsTableView generatePath buildRoute_path props) = rs
     \<and> length (data (WorkflowRunsTableView generatePath buildRoute_path props)) = length rs
     \<and> TableColumn.title (columns (WorkflowRunsTableView generatePath buildRoute_path props) ! 1)
         = ''Message''
     \<and> (\<forall>r \<in> set (data (WorkflowRunsTableView generatePath buildRoute_path props)).
          \<exists>f i m. render (columns (WorkflowRunsTableView generatePath buildRoute_path props) ! 1)
                     = Some f
            \<and> run_id r = Some i \<and> message r = Some m
            \<and> f r = (case generatePath buildRoute_path [(''id'', Some i)] of
                       Inl e \<Rightarrow> Inl e
                     | Inr target \<Rightarrow> Inr (Link target (Some m))))"
proof -
  let ?T = "WorkflowRunsTableView generatePath buildRoute_path props"
  have rows: "data ?T = rs"
    using assms(1) by (simp add: WorkflowRunsTableView_def nullish_def)
  have col: "columns ?T ! Suc 0 =
     \<lparr>TableColumn.title = ''Message'', field = Some ''message'', type = None, width = None,
      highlight = Some True, render = Some (render_Message generatePath buildRoute_path)\<rparr>"
    by (simp add: WorkflowRunsTableView_def Message_column)
  have cell: "\<exists>f i m. render (columns ?T ! 1) = Some f
            \<and> run_id r = Some i \<and> message r = Some m
            \<and> f r = (case generatePath buildRoute_path [(''id'', Some i)] of
                       Inl e \<Rightarrow> Inl e
                     | Inr target \<Rightarrow> Inr (Link target (Some m)))"
    if "r \<in> set rs" for r
  proof -
    from that assms(2) obtain i m where "run_id r = Some i" "message r = Some m"
      by auto
    then show ?thesis
      by (simp add: col render_Message_def split: sum.splits)
  qed
  from rows col cell show ?thesis by simp
qed

text \<open>Two runs, the router's generator and a template ending in \<open>:id\<close>.\<close>

theorem view_rows_and_message_links_witness:
  "runs (sample_props (Some [sample_run ''17'' ''Fix build'', sample_run ''18'' ''Bump version'']))
     = Some [sample_run ''17'' ''Fix build'', sample_run ''18'' ''Bump version'']
   \<and> data (WorkflowRunsTableView router_generatePath ''/workflow-run/:id''
        (sample_props (Some [sample_run ''17'' ''Fix build'', sample_run ''18'' ''Bump version''])))
     = [sample_run ''17'' ''Fix build'', sample_run ''18'' ''Bump version'']
   \<and> (\<exists>f. render (columns (WorkflowRunsTableView router_generatePath ''/workflow-run/:id''
        (sample_props (Some [sample_run ''17'' ''Fix build'', sample_run ''18'' ''Bump version'']))) ! 1)
          = Some f
        \<and> f (sample_run ''17'' ''Fix build'')
            = Inr (Link ''/workflow-run/17'' (Some ''Fix build''))
        \<and> f (sample_run ''18'' ''Bump version'')
            = Inr (Link ''/workflow-run/18'' (Some ''Bump version'')))"
proof -
  let ?rs = "[sample_run ''17'' ''Fix build'', sample_run ''18'' ''Bump version'']"
  have present: "runs (sample_props (Some ?rs)) = Some ?rs"
    by (simp add: sample_props_def)
  have valid: "\<forall>r \<in> set ?rs. run_id r \<noteq> None \<and> message r \<noteq> None \<and> source r \<noteq> None"
    by (simp add: sample_run_def)
  have paths:
    "router_generatePath ''/workflow-run/:id'' [(''id'', Some ''17'')] = Inr ''/workflow-run/17''"
    "router_generatePath ''/workflow-run/:id'' [(''id'', Some ''18'')] = Inr ''/workflow-run/18''"
    by (simp_all add: router_generatePath_def word_char_def)
  have ids: "run_id (sample_run i m) = Some i" "message (sample_run i m) = Some m" for i m
    by (simp_all add: sample_run_def)
  from view_rows_and_message_links
         [of "sample_props (Some ?rs)" ?rs router_generatePath "''/workflow-run/:id''",
          OF present valid]
  show ?thesis
    by (auto simp: present ids paths)
qed

text \<open>
  Claim C6. For every \<open>page\<close>, \<open>pageSize\<close> and \<open>total\<close> the table receives the
  very values the view was given, and the table's two change handlers are the view's
  \<open>onChangePage\<close> and \<open>onChangePageSize\<close> themselves: an event carrying the new
  value \<open>n\<close> runs the caller's handler on \<open>n\<close>, unchanged.
\<close>

theorem view_forwards_pagination:
  "Table.page (WorkflowRunsTableView generatePath buildRoute_path props)
      = WorkflowRunsState.page props
   \<and> TableOptions.pageSize (options (WorkflowRunsTableView generatePath buildRoute_path props))
      = WorkflowRunsState.pageSize props
   \<and> totalCount (WorkflowRunsTableView generatePath buildRoute_path props)
      = WorkflowRunsState.total props
   \<and> Table.onChangePage (WorkflowRunsTableView generatePath buildRoute_path props)
      = Props.onChangePage props
   \<and> onChangeRowsPerPage (WorkflowRunsTableView generatePath buildRoute_path props)
      = onChangePageSize props
   \<and> (\<forall>n s. Table.onChangePage (WorkflowRunsTableView generatePath buildRoute_path props) n s
             = Props.onChangePage props n s)
   \<and> (\<forall>n s. onChangeRowsPerPage (WorkflowRunsTableView generatePath buildRoute_path props) n s
             = onChangePageSize props n s)"
  by (simp add: WorkflowRunsTableView_def)

text \<open>
  Claim C7, as stated, fails: a row that has \<open>source\<close> but no \<open>source.commit\<close>
  makes the Source render function throw, since \<open>row.source?.commit.hash\<close> guards
  \<open>source\<close> only.
\<close>

theorem source_render_throws_without_commit:
  "render_Source
     \<lparr>run_id = Some ''17'', message = Some ''Fix build'', run_url = None, githubUrl = None,
      source = Some \<lparr>branchName = ''master'', commit = None\<rparr>,
      status = Some ''completed'', conclusion = Some ''success'',
      onReRunClick = (None :: (nat \<Rightarrow> nat) option)\<rparr>
   = Inl TypeError"
  by (simp add: render_Source_def optional_chain_def member_def)

text \<open>
  Claim C7, amended. For every row whose \<open>source\<close> is absent, the Source render
  function does not validate the row and renders both sub-fields, branch name and
  commit hash, as \<open>undefined\<close> instead of failing. For a row that has \<open>source\<close>,
  it reads \<open>source.commit.hash\<close> unguarded: without \<open>commit\<close> it throws a
  \<open>TypeError\<close>, with it the cell shows the branch name and the hash.
\<close>

theorem source_render_guards_source_only:
  "(source row = None \<longrightarrow> render_Source row = Inr (Typography None None))
   \<and> (\<forall>s. source row = Some s \<and> commit s = None \<longrightarrow> render_Source row = Inl TypeError)
   \<and> (\<forall>s c. source row = Some s \<and> commit s = Some c \<longrightarrow>
         render_Source row = Inr (Typography (Some (branchName s)) (Some (hash c))))"
  by (simp add: render_Source_cases)

theorem source_render_guards_source_only_witness:
  "source (sample_run ''17'' ''Fix build''\<lparr>source := None\<rparr>) = None
   \<and> render_Source (sample_run ''17'' ''Fix build''\<lparr>source := None\<rparr>)
       = Inr (Typography None None)
   \<and> render_Source
        (sample_run ''17'' ''Fix build''
           \<lparr>source := Some \<lparr>branchName = ''master'', commit = None\<rparr>\<rparr>)
       = Inl TypeError
   \<and> render_Source (sample_run ''17'' ''Fix build'')
       = Inr (Typography (Some ''master'') (Some ''3f9a2c1''))"
  using source_render_guards_source_only [of "sample_run ''17'' ''Fix build''\<lparr>source := None\<rparr>"]
        source_render_guards_source_only
          [of "sample_run ''17'' ''Fix build''
                 \<lparr>source := Some \<lparr>branchName = ''master'', commit = None\<rparr>\<rparr>"]
        source_render_guards_source_only [of "sample_run ''17'' ''Fix build''"]
  by (simp add: sample_run_def)

text \<open>
  Claim C8, as stated, fails: with the router's path generator and a route template
  that holds \<open>:id\<close>, a row without \<open>id\<close> makes the Message render function throw
  the generator's error; no link is rendered.
\<close>

theorem message_render_throws_without_id:
  "render_Message router_generatePath ''/workflow-run/:id''
     \<lparr>run_id = None, message = Some ''Fix build'', run_url = None, githubUrl = None,
      source = Some \<lparr>branchName = ''master'',
                     commit = Some \<lparr>hash = ''3f9a2c1'',
                                    url = ''https://github.com/acme/widgets/commit/3f9a2c1''\<rparr>\<rparr>,
      status = Some ''completed'', conclusion = Some ''success'',
      onReRunClick = (None :: (nat \<Rightarrow> nat) option)\<rparr>
   = Inl (Error (''Missing '' @ [CHR 0x22] @ '':id'' @ [CHR 0x22] @ '' param''))"
  by (simp add: render_Message_def router_generatePath_def word_char_def)

text \<open>
  Claim C8, amended. For every row whose \<open>id\<close> is absent, the Message render
  function (the render function of the second column) performs no defensive check:
  it calls \<open>generatePath\<close> with the route template and an \<open>undefined\<close> \<open>id\<close>. When
  that call returns a path the cell is a link to it, with the row's message as its
  text; when it throws, the render function fails with the same error.
\<close>

theorem message_render_unchecked_id:
  assumes "run_id row = None"
  shows "render_Message generatePath buildRoute_path row
           = (case generatePath buildRoute_path [(''id'', None)] of
                Inl e \<Rightarrow> Inl e
              | Inr target \<Rightarrow> Inr (Link target (message row)))
     \<and> render (generatedColumns generatePath buildRoute_path ! 1)
           = Some (render_Message generatePath buildRoute_path)"
  using assms by (simp add: render_Message_def Message_column)

text \<open>
  A template with no placeholder gives a link, one with \<open>:id\<close> the router's error.
\<close>

theorem message_render_unchecked_id_witness:
  "run_id (sample_run ''17'' ''Fix build''\<lparr>run_id := None\<rparr>) = None
   \<and> render_Message router_generatePath ''/workflow-runs''
        (sample_run ''17'' ''Fix build''\<lparr>run_id := None\<rparr>)
       = Inr (Link ''/workflow-runs'' (Some ''Fix build''))
   \<and> render_Message router_generatePath ''/workflow-run/:id''
        (sample_run ''17'' ''Fix build''\<lparr>run_id := None\<rparr>)
       = Inl (Error (''Missing '' @ [CHR 0x22] @ '':id'' @ [CHR 0x22] @ '' param''))"
proof -
  let ?row = "sample_run ''17'' ''Fix build''\<lparr>run_id := None\<rparr>"
  have absent: "run_id ?row = None"
    by simp
  have msg: "message ?row = Some ''Fix build''"
    by (simp add: sample_run_def)
  have paths:
    "router_generatePath ''/workflow-runs'' [(''id'', None)] = Inr ''/workflow-runs''"
    "router_generatePath ''/workflow-run/:id'' [(''id'', None)]
       = Inl (Error (''Missing '' @ [CHR 0x22] @ '':id'' @ [CHR 0x22] @ '' param''))"
    by (simp_all add: router_generatePath_def word_char_def)
  have plain: "render_Message router_generatePath ''/workflow-runs'' ?row
        = (case router_generatePath ''/workflow-runs'' [(''id'', None)] of
             Inl e \<Rightarrow> Inl e
           | Inr target \<Rightarrow> Inr (Link target (message ?row)))"
    using message_render_unchecked_id [OF absent, of router_generatePath "''/workflow-runs''"]
    by (rule conjunct1)
  have with_id: "render_Message router_generatePath ''/workflow-run/:id'' ?row
        = (case router_generatePath ''/workflow-run/:id'' [(''id'', None)] of
             Inl e \<Rightarrow> Inl e
           | Inr target \<Rightarrow> Inr (Link target (message ?row)))"
    using message_render_unchecked_id [OF absent, of router_generatePath "''/workflow-run/:id''"]
    by (rule conjunct1)
  from absent plain with_id show ?thesis
    by (simp add: paths msg)
qed

text \<open>
  Claim C9. Given \<open>runs\<close> undefined, the view still renders the table, with the
  empty array as its data: the table is the same as for an empty \<open>runs\<close>. The
  container is where the two differ: \<open>undefined\<close> gives the panel, the empty array
  the view.
\<close>

theorem view_treats_undefined_runs_as_empty:
  "data (WorkflowRunsTableView generatePath buildRoute_path (props\<lparr>runs := None\<rparr>)) = []
   \<and> WorkflowRunsTableView generatePath buildRoute_path (props\<lparr>runs := None\<rparr>)
     = WorkflowRunsTableView generatePath buildRoute_path (props\<lparr>runs := Some []\<rparr>)
   \<and> is_EmptyState (WorkflowRunsTable upn
        (\<lambda>args. (fst (uwr args)\<lparr>runs := None\<rparr>, snd (uwr args))) e b)
   \<and> is_View (WorkflowRunsTable upn
        (\<lambda>args. (fst (uwr args)\<lparr>runs := Some []\<rparr>, snd (uwr args))) e b)"
  by (simp add: WorkflowRunsTableView_def nullish_def WorkflowRunsTable_def truthy_def Let_def
           split: prod.splits)

text \<open>
  Claim C10. When the project-name lookup returns \<open>undefined\<close> and \<open>runs\<close> is
  \<open>undefined\<close> too, the container returns the empty-state panel and the \<open>href\<close>
  of its button is \<open>https://github.com/undefined/actions/new\<close>.
\<close>

theorem undefined_project_name_in_href:
  assumes "project_value (upn e) = None"
      and "runs (fst (uwr (useWorkflowRuns_args (project_value (upn e)) b))) = None"
  shows "\<exists>es. WorkflowRunsTable upn uwr e b = EmptyState_element es
     \<and> href (action es) = ''https://github.com/undefined/actions/new''"
  using WorkflowRunsTable_absent [of uwr upn e b, OF assms(2)] assms(1)
  by (simp add: template_hole_def)

theorem undefined_project_name_in_href_witness:
  "project_value (sample_useProjectName None True ()) = None
   \<and> runs (fst (sample_useWorkflowRuns None False
        (useWorkflowRuns_args (project_value (sample_useProjectName None True ())) None))) = None
   \<and> (\<exists>es. WorkflowRunsTable (sample_useProjectName None True)
               (sample_useWorkflowRuns None False) () None = EmptyState_element es
          \<and> href (action es) = ''https://github.com/undefined/actions/new'')"
proof -
  have name: "project_value (sample_useProjectName None True ()) = None"
    by (simp add: sample_useProjectName_def)
  have absent: "runs (fst (sample_useWorkflowRuns None False
        (useWorkflowRuns_args (project_value (sample_useProjectName None True ())) None))) = None"
    by (simp add: sample_useWorkflowRuns_def)
  from undefined_project_name_in_href
         [of "sample_useProjectName None True" "()" "sample_useWorkflowRuns None False" None,
          OF name absent] name absent
  show ?thesis by simp
qed

end
